theory Spec2Isabelle
  imports Main "HOL-Library.AList"
begin

section \<open>Text operations of the cleaning script\<close>

text \<open>
  The script works on Python strings. They are modelled as \<^typ>\<open>string\<close>, each
  \<^typ>\<open>char\<close> standing for one code point below 256 (ASCII and Latin-1), which is the
  range on which the operations below are written out.
\<close>

text \<open>The characters that \<^verbatim>\<open>str.strip()\<close> and \<^verbatim>\<open>str.split()\<close> treat as whitespace:
  tab, line feed, vertical tab, form feed, carriage return, the four separators
  0x1C to 0x1F, space, next line (0x85) and no-break space (0xA0).\<close>

definition isspace :: "char \<Rightarrow> bool" where
  "isspace c \<longleftrightarrow>
     (let n = (of_char c :: nat)
      in (9 \<le> n \<and> n \<le> 13) \<or> (28 \<le> n \<and> n \<le> 32) \<or> n = 133 \<or> n = 160)"

text \<open>\<^verbatim>\<open>str.lower()\<close> on one code point: A to Z, and the Latin-1 capitals 0xC0 to
  0xDE without the multiplication sign 0xD7, move up by 32.\<close>

definition lower_char :: "char \<Rightarrow> char" where
  "lower_char c =
     (let n = (of_char c :: nat)
      in if (65 \<le> n \<and> n \<le> 90) \<or> (192 \<le> n \<and> n \<le> 222 \<and> n \<noteq> 215)
         then char_of (n + 32) else c)"

definition lower :: "string \<Rightarrow> string" where
  "lower s = map lower_char s"

definition strip :: "string \<Rightarrow> string" where
  "strip s = rev (dropWhile isspace (rev (dropWhile isspace s)))"

text \<open>\<^verbatim>\<open>str.split()\<close> without arguments: the maximal runs of non-whitespace, in
  order. \<open>cur\<close> is the word being read.\<close>

fun split_words :: "string \<Rightarrow> string \<Rightarrow> string list" where
  "split_words cur [] = (if cur = [] then [] else [cur])"
| "split_words cur (c # cs) =
     (if isspace c
      then (if cur = [] then split_words [] cs else cur # split_words [] cs)
      else split_words (cur @ [c]) cs)"

definition split :: "string \<Rightarrow> string list" where
  "split s = split_words [] s"

text \<open>\<^verbatim>\<open>sep.join(words)\<close>.\<close>

fun join :: "string \<Rightarrow> string list \<Rightarrow> string" where
  "join sep [] = []"
| "join sep [w] = w"
| "join sep (w # ws) = w @ sep @ join sep ws"

text \<open>\<^verbatim>\<open>s.replace(old, new)\<close>: every occurrence of \<open>old\<close>, found from the left
  and not overlapping, becomes \<open>new\<close>. With an empty \<open>old\<close> Python puts \<open>new\<close>
  before every character and at the end.\<close>

function replace :: "string \<Rightarrow> string \<Rightarrow> string \<Rightarrow> string" where
  "replace old new [] = (if old = [] then new else [])"
| "replace old new (c # cs) =
     (if old = [] then new @ c # replace old new cs
      else if take (length old) (c # cs) = old
           then new @ replace old new (drop (length old) (c # cs))
           else c # replace old new cs)"
  by pat_completeness auto
termination
  by (relation "measure (\<lambda>(old, new, s). length s)") auto

section \<open>The table of state names\<close>

text \<open>\<^verbatim>\<open>STATE_NAME_MAP\<close>, entry by entry in the order of the source. The keys are
  pairwise distinct (\<open>STATE_NAME_MAP_keys_distinct\<close> below), so looking a key up with
  \<^const>\<open>map_of\<close> is the dictionary lookup.\<close>

definition STATE_NAME_MAP :: "(string \<times> string) list" where
  "STATE_NAME_MAP = [
    (''andaman and nicobar islands'', ''andaman and nicobar islands''),
    (''andhra pradesh'', ''andhra pradesh''),
    (''arunachal pradesh'', ''arunachal pradesh''),
    (''assam'', ''assam''),
    (''bihar'', ''bihar''),
    (''chandigarh'', ''chandigarh''),
    (''chhattisgarh'', ''chhattisgarh''),
    (''dadra and nagar haveli and daman and diu'', ''dadra and nagar haveli and daman and diu''),
    (''delhi'', ''delhi''),
    (''goa'', ''goa''),
    (''gujarat'', ''gujarat''),
    (''haryana'', ''haryana''),
    (''himachal pradesh'', ''himachal pradesh''),
    (''jammu and kashmir'', ''jammu and kashmir''),
    (''jharkhand'', ''jharkhand''),
    (''karnataka'', ''karnataka''),
    (''kerala'', ''kerala''),
    (''ladakh'', ''ladakh''),
    (''lakshadweep'', ''lakshadweep''),
    (''madhya pradesh'', ''madhya pradesh''),
    (''maharashtra'', ''maharashtra''),
    (''manipur'', ''manipur''),
    (''meghalaya'', ''meghalaya''),
    (''mizoram'', ''mizoram''),
    (''nagaland'', ''nagaland''),
    (''odisha'', ''odisha''),
    (''puducherry'', ''puducherry''),
    (''punjab'', ''punjab''),
    (''rajasthan'', ''rajasthan''),
    (''sikkim'', ''sikkim''),
    (''tamil nadu'', ''tamil nadu''),
    (''telangana'', ''telangana''),
    (''tripura'', ''tripura''),
    (''uttar pradesh'', ''uttar pradesh''),
    (''uttarakhand'', ''uttarakhand''),
    (''west bengal'', ''west bengal''),
    (''andaman & nicobar islands'', ''andaman and nicobar islands''),
    (''andaman & nicobar'', ''andaman and nicobar islands''),
    (''andaman and nicobar'', ''andaman and nicobar islands''),
    (''a & n islands'', ''andaman and nicobar islands''),
    (''a&n islands'', ''andaman and nicobar islands''),
    (''nct of delhi'', ''delhi''),
    (''new delhi'', ''delhi''),
    (''national capital territory of delhi'', ''delhi''),
    (''chattisgarh'', ''chhattisgarh''),
    (''chhatisgarh'', ''chhattisgarh''),
    (''dadra and nagar haveli'', ''dadra and nagar haveli and daman and diu''),
    (''dadra & nagar haveli'', ''dadra and nagar haveli and daman and diu''),
    (''dnh'', ''dadra and nagar haveli and daman and diu''),
    (''daman and diu'', ''dadra and nagar haveli and daman and diu''),
    (''daman & diu'', ''dadra and nagar haveli and daman and diu''),
    (''diu'', ''dadra and nagar haveli and daman and diu''),
    (''daman'', ''dadra and nagar haveli and daman and diu''),
    (''jammu & kashmir'', ''jammu and kashmir''),
    (''j&k'', ''jammu and kashmir''),
    (''j & k'', ''jammu and kashmir''),
    (''orissa'', ''odisha''),
    (''pondicherry'', ''puducherry''),
    (''pondy'', ''puducherry''),
    (''tamilnadu'', ''tamil nadu''),
    (''tn'', ''tamil nadu''),
    (''uttarpradesh'', ''uttar pradesh''),
    (''up'', ''uttar pradesh''),
    (''u.p.'', ''uttar pradesh''),
    (''uttaranchal'', ''uttarakhand''),
    (''westbengal'', ''west bengal''),
    (''w.b.'', ''west bengal''),
    (''wb'', ''west bengal''),
    (''madhyapradesh'', ''madhya pradesh''),
    (''mp'', ''madhya pradesh''),
    (''m.p.'', ''madhya pradesh''),
    (''himachalpradesh'', ''himachal pradesh''),
    (''hp'', ''himachal pradesh''),
    (''h.p.'', ''himachal pradesh''),
    (''arunachalpradesh'', ''arunachal pradesh''),
    (''andhrapradesh'', ''andhra pradesh''),
    (''ap'', ''andhra pradesh''),
    (''laccadive'', ''lakshadweep''),
    (''lakshadweep islands'', ''lakshadweep'')
  ]"

text \<open>The names under "Current Official Names" in the source's table: its first
  36 entries map each of them to itself (\<open>STATE_NAME_MAP_official\<close> below).\<close>

definition official_names :: "string list" where
  "official_names = [
      ''andaman and nicobar islands'',
      ''andhra pradesh'',
      ''arunachal pradesh'',
      ''assam'',
      ''bihar'',
      ''chandigarh'',
      ''chhattisgarh'',
      ''dadra and nagar haveli and daman and diu'',
      ''delhi'',
      ''goa'',
      ''gujarat'',
      ''haryana'',
      ''himachal pradesh'',
      ''jammu and kashmir'',
      ''jharkhand'',
      ''karnataka'',
      ''kerala'',
      ''ladakh'',
      ''lakshadweep'',
      ''madhya pradesh'',
      ''maharashtra'',
      ''manipur'',
      ''meghalaya'',
      ''mizoram'',
      ''nagaland'',
      ''odisha'',
      ''puducherry'',
      ''punjab'',
      ''rajasthan'',
      ''sikkim'',
      ''tamil nadu'',
      ''telangana'',
      ''tripura'',
      ''uttar pradesh'',
      ''uttarakhand'',
      ''west bengal''
   ]"

section \<open>Cleaning one value\<close>

text \<open>A value of the column is \<open>None\<close> where \<^verbatim>\<open>pd.isna\<close> holds of it, and
  \<open>Some s\<close> otherwise, \<open>s\<close> being what \<^verbatim>\<open>str\<close> makes of the value.\<close>

type_synonym cell = "string option"

definition INVALID_STATE :: string where
  "INVALID_STATE = ''INVALID_STATE''"

text \<open>The key that \<^verbatim>\<open>clean_state_name\<close> looks up: the last value of its local
  variable \<^verbatim>\<open>state_clean\<close>.\<close>

definition state_clean :: "string \<Rightarrow> string" where
  "state_clean v =
     (let s = lower (strip v);
          s = join '' '' (split s);
          s = replace ''&'' ''and'' s
      in s)"

definition clean_state_name :: "cell \<Rightarrow> string" where
  "clean_state_name state_value =
     (case state_value of
        None \<Rightarrow> INVALID_STATE
      | Some v \<Rightarrow>
          (case map_of STATE_NAME_MAP (state_clean v) of
             Some name \<Rightarrow> name
           | None \<Rightarrow> INVALID_STATE))"

section \<open>Cleaning a column\<close>

text \<open>A DataFrame, column by column in the order of its header: the name of each
  column and its values, one per row. All columns have the same number of values.\<close>

type_synonym dataframe = "(string \<times> cell list) list"

datatype error =
    FileNotFoundError string
  | KeyError string
  | ParserError string
  | OSError string
  | ValueError



text \<open>The figures \<^verbatim>\<open>clean_state_column\<close> prints: \<^verbatim>\<open>len(df)\<close>, the number of
  rows holding \<^verbatim>\<open>INVALID_STATE\<close> after cleaning, and the examples it lists under
  "Invalid state examples" (the first ten values of the cleaned column that equal
  \<^verbatim>\<open>INVALID_STATE\<close>).\<close>

record report =
  total_rows :: nat
  invalid_count :: nat
  invalid_samples :: "string list"

text \<open>\<^verbatim>\<open>df[column_name]\<close> raises \<^verbatim>\<open>KeyError\<close> when the column is absent. The
  assignment \<^verbatim>\<open>df[column_name] = ...\<close> replaces the values of that column in place.\<close>

definition clean_state_column :: "dataframe \<Rightarrow> string \<Rightarrow> error + dataframe \<times> report" where
  "clean_state_column df column_name =
     (case map_of df column_name of
        None \<Rightarrow> Inl (KeyError column_name)
      | Some vals \<Rightarrow>
          (let cleaned = map clean_state_name vals;
               df' = AList.update column_name (map Some cleaned) df;
               invalid = filter (\<lambda>s. s = INVALID_STATE) cleaned
           in Inr (df', \<lparr>total_rows = length vals,
                         invalid_count = length invalid,
                         invalid_samples = take 10 invalid\<rparr>)))"

section \<open>Files\<close>

text \<open>The files the script reads and writes: the text stored under each path, the
  writes made so far, oldest first, and the paths that cannot be written (the directory
  is missing, the path is a directory, the file is read-only).\<close>

record world =
  files :: "string \<rightharpoonup> string"
  writes :: "(string \<times> string) list"
  locked :: "string set"

text \<open>\<^verbatim>\<open>pd.read_csv\<close> and \<^verbatim>\<open>DataFrame.to_csv\<close> belong to the pandas library. What
  they make of a text and of a table is taken as given: \<open>parse\<close> (\<open>None\<close> where the
  library rejects the text) and \<open>render\<close>. Reading a path that has no file raises
  \<^verbatim>\<open>FileNotFoundError\<close>; writing to a path that cannot be written raises
  \<^verbatim>\<open>OSError\<close> and leaves the files as they are.\<close>

definition read_csv :: "(string \<Rightarrow> dataframe option) \<Rightarrow> world \<Rightarrow> string \<Rightarrow> error + dataframe" where
  "read_csv parse w path =
     (case files w path of
        None \<Rightarrow> Inl (FileNotFoundError path)
      | Some text \<Rightarrow>
          (case parse text of
             None \<Rightarrow> Inl (ParserError path)
           | Some df \<Rightarrow> Inr df))"

definition to_csv ::
  "(dataframe \<Rightarrow> string) \<Rightarrow> dataframe \<Rightarrow> string \<Rightarrow> world \<Rightarrow> error + world" where
  "to_csv render df path w =
     (if path \<in> locked w then Inl (OSError path)
      else Inr (w\<lparr>files := (files w)(path \<mapsto> render df),
                   writes := writes w @ [(path, render df)]\<rparr>))"

text \<open>An exception leaves \<^verbatim>\<open>process_csv_file\<close> where it is raised: the world returned
  with an error is the world at that point. A failure of the second write of the
  overwriting run comes after the backup is written.\<close>

definition process_csv_file ::
  "(string \<Rightarrow> dataframe option) \<Rightarrow> (dataframe \<Rightarrow> string) \<Rightarrow>
   string \<Rightarrow> string option \<Rightarrow> string \<Rightarrow> world \<Rightarrow> (error + dataframe) \<times> world" where
  "process_csv_file parse render input_file output_file state_column w =
     (case read_csv parse w input_file of
        Inl e \<Rightarrow> (Inl e, w)
      | Inr df0 \<Rightarrow>
          (case clean_state_column df0 state_column of
             Inl e \<Rightarrow> (Inl e, w)
           | Inr (df, rep) \<Rightarrow>
               (case output_file of
                  None \<Rightarrow>
                    (let backup_file = replace ''.csv'' ''_BACKUP.csv'' input_file
                     in case read_csv parse w input_file of
                          Inl e \<Rightarrow> (Inl e, w)
                        | Inr df_original \<Rightarrow>
                            (case to_csv render df_original backup_file w of
                               Inl e \<Rightarrow> (Inl e, w)
                             | Inr w1 \<Rightarrow>
                                 (case to_csv render df input_file w1 of
                                    Inl e \<Rightarrow> (Inl e, w1)
                                  | Inr w2 \<Rightarrow> (Inr df, w2))))
                | Some out \<Rightarrow>
                    (case to_csv render df out w of
                       Inl e \<Rightarrow> (Inl e, w)
                     | Inr w1 \<Rightarrow> (Inr df, w1)))))"

section \<open>The command line\<close>

definition files_to_process :: "(string \<times> string) list" where
  "files_to_process =
     [(''data/enrollment.csv'', ''data/enrollment_cleaned_states.csv''),
      (''data/demographic.csv'', ''data/demographic_cleaned_states.csv''),
      (''data/biometric.csv'', ''data/biometric_cleaned_states.csv'')]"

text \<open>The loop over \<^verbatim>\<open>files_to_process\<close>. Both \<^verbatim>\<open>except\<close> clauses print a message
  and go on with the next pair; the list returned holds, for each pair in turn, the
  table cleaned or the error that was caught.\<close>

fun process_all ::
  "(string \<Rightarrow> dataframe option) \<Rightarrow> (dataframe \<Rightarrow> string) \<Rightarrow>
   (string \<times> string) list \<Rightarrow> world \<Rightarrow> (error + dataframe) list \<times> world" where
  "process_all parse render [] w = ([], w)"
| "process_all parse render ((input_file, output_file) # rest) w =
     (let (r, w1) = process_csv_file parse render input_file (Some output_file) ''state'' w;
          (rs, w2) = process_all parse render rest w1
      in (r # rs, w2))"

text \<open>The script run with the arguments \<open>argv\<close> (\<open>argv ! 0\<close> is the script's name).
  The first component is the exception that ends the run, if any: with arguments,
  nothing catches what \<^verbatim>\<open>process_csv_file\<close> raises.\<close>

definition main ::
  "(string \<Rightarrow> dataframe option) \<Rightarrow> (dataframe \<Rightarrow> string) \<Rightarrow>
   string list \<Rightarrow> world \<Rightarrow> error option \<times> (error + dataframe) list \<times> world" where
  "main parse render argv w =
     (if length argv > 1
      then (let input_file = argv ! 1;
                output_file = (if length argv > 2 then Some (argv ! 2) else None);
                (r, w1) = process_csv_file parse render input_file output_file ''state'' w
            in case r of
                 Inl e \<Rightarrow> (Some e, [], w1)
               | Inr df \<Rightarrow> (None, [Inr df], w1))
      else (let (rs, w1) = process_all parse render files_to_process w
            in (None, rs, w1)))"

section \<open>Plain comma-separated text\<close>

text \<open>A reader and a writer for comma-separated text without quoting, used where an
  example needs a concrete \<open>parse\<close> and \<open>render\<close>. Lines end with a line feed,
  which the last line of a text may lack; an empty field is a missing value; the
  writer ends every line it writes, the header included, with a line feed.\<close>

fun split_on :: "char \<Rightarrow> string \<Rightarrow> string list" where
  "split_on sep [] = [[]]"
| "split_on sep (c # cs) =
     (if c = sep then [] # split_on sep cs
      else (case split_on sep cs of
              [] \<Rightarrow> [[c]]
            | piece # pieces \<Rightarrow> (c # piece) # pieces))"

definition text_lines :: "string \<Rightarrow> string list" where
  "text_lines s =
     (let ls = split_on (CHR 0x0A) s
      in if last ls = [] then butlast ls else ls)"

definition plain_read_csv :: "string \<Rightarrow> dataframe option" where
  "plain_read_csv s =
     (case text_lines s of
        [] \<Rightarrow> None
      | header # rows \<Rightarrow>
          (let names = split_on (CHR '','') header;
               cells = map (split_on (CHR '','')) rows
           in if list_all (\<lambda>r. length r = length names) cells
              then Some (map (\<lambda>i. (names ! i,
                                   map (\<lambda>r. if r ! i = [] then None else Some (r ! i)) cells))
                             [0 ..< length names])
              else None))"

definition plain_to_csv :: "dataframe \<Rightarrow> string" where
  "plain_to_csv df =
     (let nrows = (case df of [] \<Rightarrow> 0 | (name, vals) # cols \<Rightarrow> length vals);
          field = (\<lambda>v. case v of None \<Rightarrow> [] | Some s \<Rightarrow> s)
      in concat (map (\<lambda>fields. join '','' fields @ [CHR 0x0A])
                     (map fst df # map (\<lambda>i. map (\<lambda>(name, vals). field (vals ! i)) df)
                                       [0 ..< nrows])))"

section \<open>Facts about the text operations\<close>

text \<open>Which of the characters met in the examples are whitespace, and what
  \<^const>\<open>lower_char\<close> makes of them.\<close>

lemma isspace_chars:
  "isspace CHR '' ''"
  "list_all (\<lambda>c. \<not> isspace c)
     ''abcdefghijklmnopqrstuvwxyzABCDEFGHIJKLMNOPQRSTUVWXYZ&._''"
  by (simp_all add: isspace_def)

lemma lower_chars:
  "map lower_char ''abcdefghijklmnopqrstuvwxyz &._'' = ''abcdefghijklmnopqrstuvwxyz &._''"
  "map lower_char ''ABCDEFGHIJKLMNOPQRSTUVWXYZ'' = ''abcdefghijklmnopqrstuvwxyz''"
  by (simp_all add: lower_char_def char_of_def bit_Suc_0_iff)

lemmas text_defs = state_clean_def lower_def strip_def split_def

lemma state_clean_examples:
  "state_clean ''U.P.'' = ''u.p.''"
  "state_clean ''TN'' = ''tn''"
  "state_clean ''Mars'' = ''mars''"
  "state_clean ''Atlantis'' = ''atlantis''"
  "state_clean ''J&K'' = ''jandk''"
  "state_clean ''  J&K '' = ''jandk''"
  "state_clean ''j and k'' = ''j and k''"
  "state_clean ''j & k'' = ''j and k''"
  "state_clean ''a&n islands'' = ''aandn islands''"
  "state_clean ''a & n islands'' = ''a and n islands''"
  using isspace_chars lower_chars
  by (simp_all add: text_defs)

lemma state_clean_INVALID: "state_clean INVALID_STATE = ''invalid_state''"
  using isspace_chars lower_chars
  by (simp add: INVALID_STATE_def text_defs)

section \<open>Facts about the table\<close>

lemma STATE_NAME_MAP_keys_distinct: "distinct (map fst STATE_NAME_MAP)"
  by code_simp

lemma STATE_NAME_MAP_official:
  "take 36 STATE_NAME_MAP = map (\<lambda>c. (c, c)) official_names"
  by code_simp

lemma values_official:
  "list_all (\<lambda>v. v \<in> set official_names) (map snd STATE_NAME_MAP)"
  by code_simp

lemma official_distinct: "distinct official_names" "length official_names = 36"
  by code_simp+

lemma official_clean: "list_all (\<lambda>c. state_clean c = c) official_names"
  using isspace_chars lower_chars
  by (simp add: official_names_def text_defs)

text \<open>An official name is found among the first 36 entries, where it maps to itself.\<close>

lemma official_self: "list_all (\<lambda>c. map_of STATE_NAME_MAP c = Some c) official_names"
proof -
  have "map_of (map (\<lambda>c. (c, c)) names @ rest) c = Some c" if "c \<in> set names"
    for names :: "string list" and rest :: "(string \<times> string) list" and c
    using that by (induction names) auto
  then have "map_of (take 36 STATE_NAME_MAP @ drop 36 STATE_NAME_MAP) c = Some c"
    if "c \<in> set official_names" for c
    using that by (simp only: STATE_NAME_MAP_official)
  then show ?thesis by (simp add: list_all_iff)
qed

lemma ran_official: "snd ` set STATE_NAME_MAP = set official_names"
proof
  show "snd ` set STATE_NAME_MAP \<subseteq> set official_names"
    using values_official by (auto simp: list_all_iff)
next
  show "set official_names \<subseteq> snd ` set STATE_NAME_MAP"
  proof
    fix c assume "c \<in> set official_names"
    then have "map_of STATE_NAME_MAP c = Some c"
      using official_self by (simp add: list_all_iff)
    then have "(c, c) \<in> set STATE_NAME_MAP" by (rule map_of_SomeD)
    then show "c \<in> snd ` set STATE_NAME_MAP" by force
  qed
qed

lemma lookup_official:
  assumes "map_of STATE_NAME_MAP k = Some v"
  shows "v \<in> set official_names"
proof -
  from assms have "(k, v) \<in> set STATE_NAME_MAP" by (rule map_of_SomeD)
  then have "v \<in> snd ` set STATE_NAME_MAP" by force
  then show ?thesis by (simp add: ran_official)
qed

text \<open>Lookups of the keys met in the examples.\<close>

lemma lookup_examples:
  "map_of STATE_NAME_MAP ''u.p.'' = Some ''uttar pradesh''
   \<and> map_of STATE_NAME_MAP ''tn'' = Some ''tamil nadu''
   \<and> map_of STATE_NAME_MAP ''mars'' = None
   \<and> map_of STATE_NAME_MAP ''atlantis'' = None
   \<and> map_of STATE_NAME_MAP ''jandk'' = None
   \<and> map_of STATE_NAME_MAP ''j and k'' = None
   \<and> map_of STATE_NAME_MAP ''aandn islands'' = None
   \<and> map_of STATE_NAME_MAP ''a and n islands'' = None"
  by code_simp

lemma alias_entries:
  "map_of STATE_NAME_MAP ''j&k'' = Some ''jammu and kashmir''
   \<and> map_of STATE_NAME_MAP ''j & k'' = Some ''jammu and kashmir''
   \<and> map_of STATE_NAME_MAP ''a&n islands'' = Some ''andaman and nicobar islands''
   \<and> map_of STATE_NAME_MAP ''a & n islands'' = Some ''andaman and nicobar islands''"
  by code_simp

lemma INVALID_not_key:
  "map_of STATE_NAME_MAP ''invalid_state'' = None
   \<and> map_of STATE_NAME_MAP INVALID_STATE = None
   \<and> INVALID_STATE \<notin> set official_names
   \<and> ''delhi'' \<in> set official_names"
  by code_simp

section \<open>Facts about cleaning one value\<close>

lemma clean_state_name_cases:
  "clean_state_name v = INVALID_STATE \<or> clean_state_name v \<in> set official_names"
  by (auto simp: clean_state_name_def lookup_official split: option.splits)

lemma clean_official:
  assumes "c \<in> set official_names"
  shows "clean_state_name (Some c) = c"
proof -
  from assms have "state_clean c = c" "map_of STATE_NAME_MAP c = Some c"
    using official_clean official_self by (simp_all add: list_all_iff)
  then show ?thesis by (simp add: clean_state_name_def)
qed

lemma clean_INVALID: "clean_state_name (Some INVALID_STATE) = INVALID_STATE"
  by (simp add: clean_state_name_def state_clean_INVALID INVALID_not_key)

lemma clean_state_name_twice:
  "clean_state_name (Some (clean_state_name v)) = clean_state_name v"
  using clean_state_name_cases [of v] by (auto simp: clean_INVALID clean_official)

lemma clean_examples:
  "clean_state_name (Some ''U.P.'') = ''uttar pradesh''"
  "clean_state_name (Some ''TN'') = ''tamil nadu''"
  "clean_state_name (Some ''Mars'') = ''INVALID_STATE''"
  "clean_state_name (Some ''Atlantis'') = ''INVALID_STATE''"
  "clean_state_name None = ''INVALID_STATE''"
  by (simp_all add: clean_state_name_def state_clean_examples lookup_examples INVALID_STATE_def)

section \<open>Facts about cleaning a column\<close>

lemma clean_state_column_Inr:
  assumes "map_of df col = Some vals"
  shows "clean_state_column df col =
           Inr (AList.update col (map Some (map clean_state_name vals)) df,
                \<lparr>total_rows = length vals,
                 invalid_count =
                   length (filter (\<lambda>s. s = INVALID_STATE) (map clean_state_name vals)),
                 invalid_samples =
                   take 10 (filter (\<lambda>s. s = INVALID_STATE) (map clean_state_name vals))\<rparr>)"
  unfolding clean_state_column_def Let_def using assms by simp

lemma clean_state_column_KeyError:
  assumes "map_of df col = None"
  shows "clean_state_column df col = Inl (KeyError col)"
  unfolding clean_state_column_def using assms by simp

lemma clean_state_column_twice:
  assumes "clean_state_column df col = Inr (df', r)"
  shows "clean_state_column df' col = Inr (df', r)"
proof -
  from assms obtain vals where vals: "map_of df col = Some vals"
    by (cases "map_of df col") (simp_all add: clean_state_column_KeyError)
  define cleaned where "cleaned = map clean_state_name vals"
  from assms have df': "df' = AList.update col (map Some cleaned) df"
    and r: "r = \<lparr>total_rows = length vals,
                invalid_count = length (filter (\<lambda>s. s = INVALID_STATE) cleaned),
                invalid_samples = take 10 (filter (\<lambda>s. s = INVALID_STATE) cleaned)\<rparr>"
    unfolding clean_state_column_Inr [OF vals] cleaned_def by simp_all
  have look: "map_of df' col = Some (map Some cleaned)"
    by (simp add: df' update_conv')
  have again: "map clean_state_name (map Some cleaned) = cleaned"
    by (simp add: cleaned_def clean_state_name_twice)
  have same: "AList.update col (map Some cleaned) df' = df'"
    using look by (rule update_triv)
  show ?thesis
    unfolding clean_state_column_Inr [OF look] again same r by (simp add: cleaned_def)
qed

lemma update_column_lengths:
  assumes "map_of df col = Some vals" and "length vals' = length vals"
  shows "map (length \<circ> snd) (AList.update col vals' df) = map (length \<circ> snd) df"
  using assms by (induction df) (auto split: if_splits)

lemma update_column_names:
  assumes "map_of df col = Some vals"
  shows "map fst (AList.update col vals' df) = map fst df"
proof -
  from assms have "col \<in> set (map fst df)"
    by (metis map_of_eq_None_iff option.distinct(1) set_map)
  then show ?thesis by (simp add: update_keys)
qed

section \<open>Facts about processing a file\<close>

lemma read_csv_Inr:
  "read_csv parse w path = Inr df \<longleftrightarrow>
     (\<exists>content. files w path = Some content \<and> parse content = Some df)"
  by (auto simp: read_csv_def split: option.splits)

lemma read_csv_missing:
  "files w path = None \<Longrightarrow> read_csv parse w path = Inl (FileNotFoundError path)"
  by (simp add: read_csv_def)

lemma read_csv_cong:
  "files w1 path = files w path \<Longrightarrow> read_csv parse w1 path = read_csv parse w path"
  by (simp add: read_csv_def)

lemma to_csv_Inr:
  assumes "to_csv render df path w = Inr w1"
  shows "files w1 = (files w)(path \<mapsto> render df)"
    and "writes w1 = writes w @ [(path, render df)]"
    and "locked w1 = locked w"
    and "path \<notin> locked w"
  using assms by (auto simp: to_csv_def split: if_splits)

lemma to_csv_Inl:
  assumes "to_csv render df path w = Inl e"
  shows "e = OSError path" and "path \<in> locked w"
  using assms by (auto simp: to_csv_def split: if_splits)

lemma to_csv_free:
  assumes "path \<notin> locked w"
  shows "to_csv render df path w =
           Inr (w\<lparr>files := (files w)(path \<mapsto> render df),
                   writes := writes w @ [(path, render df)]\<rparr>)"
  using assms by (simp add: to_csv_def)

lemma process_csv_file_read_error:
  assumes "read_csv parse w inp = Inl e"
  shows "process_csv_file parse render inp out col w = (Inl e, w)"
  using assms by (simp add: process_csv_file_def)

lemma process_csv_file_column_error:
  assumes "read_csv parse w inp = Inr df0" and "clean_state_column df0 col = Inl e"
  shows "process_csv_file parse render inp out col w = (Inl e, w)"
  using assms by (simp add: process_csv_file_def)

lemma process_csv_file_overwrite:
  assumes "read_csv parse w inp = Inr df0" and "clean_state_column df0 col = Inr (df, r)"
    and "to_csv render df0 (replace ''.csv'' ''_BACKUP.csv'' inp) w = Inr w1"
    and "to_csv render df inp w1 = Inr w2"
  shows "process_csv_file parse render inp None col w = (Inr df, w2)"
  using assms by (simp add: process_csv_file_def)

lemma process_csv_file_output:
  assumes "read_csv parse w inp = Inr df0" and "clean_state_column df0 col = Inr (df, r)"
    and "to_csv render df out w = Inr w1"
  shows "process_csv_file parse render inp (Some out) col w = (Inr df, w1)"
  using assms by (simp add: process_csv_file_def)

lemma process_csv_file_output_error:
  assumes "read_csv parse w inp = Inr df0" and "clean_state_column df0 col = Inr (df, r)"
    and "to_csv render df out w = Inl e"
  shows "process_csv_file parse render inp (Some out) col w = (Inl e, w)"
  using assms by (simp add: process_csv_file_def)

text \<open>What a run that succeeds has done.\<close>

lemma process_csv_file_Inr_overwrite:
  assumes "process_csv_file parse render inp None col w = (Inr df, w')"
  obtains df0 r w1 where "read_csv parse w inp = Inr df0"
    and "clean_state_column df0 col = Inr (df, r)"
    and "to_csv render df0 (replace ''.csv'' ''_BACKUP.csv'' inp) w = Inr w1"
    and "to_csv render df inp w1 = Inr w'"
  using assms
  by (auto simp: process_csv_file_def Let_def split: sum.splits prod.splits)

lemma process_csv_file_Inr_output:
  assumes "process_csv_file parse render inp (Some out) col w = (Inr df, w')"
  obtains df0 r where "read_csv parse w inp = Inr df0"
    and "clean_state_column df0 col = Inr (df, r)"
    and "to_csv render df out w = Inr w'"
  using assms
  by (auto simp: process_csv_file_def split: sum.splits prod.splits)

text \<open>With an output path given, the outcome depends on the input file and on whether
  the output path can be written, and only the output file changes.\<close>

lemma process_csv_file_result_cong:
  assumes "files w1 inp = files w inp" and "locked w1 = locked w"
  shows "fst (process_csv_file parse render inp (Some out) col w1) =
         fst (process_csv_file parse render inp (Some out) col w)"
  using read_csv_cong [OF assms(1), of parse] assms(2)
  by (simp add: process_csv_file_def to_csv_def split: sum.splits prod.splits)

lemma process_csv_file_files_other:
  assumes "p \<noteq> out"
  shows "files (snd (process_csv_file parse render inp (Some out) col w)) p = files w p"
  using assms
  by (simp add: process_csv_file_def to_csv_def split: sum.splits prod.splits)

lemma process_csv_file_locked:
  "locked (snd (process_csv_file parse render inp (Some out) col w)) = locked w"
  by (simp add: process_csv_file_def to_csv_def split: sum.splits prod.splits)

lemma process_csv_file_files_cong:
  assumes "files w1 inp = files w inp" and "files w1 out = files w out"
    and "locked w1 = locked w"
  shows "files (snd (process_csv_file parse render inp (Some out) col w1)) out =
         files (snd (process_csv_file parse render inp (Some out) col w)) out"
  using read_csv_cong [OF assms(1), of parse] assms(2,3)
  by (simp add: process_csv_file_def to_csv_def split: sum.splits prod.splits)

section \<open>Facts about the loop over the datasets\<close>

lemma process_all_files_other:
  assumes "p \<notin> snd ` set fs"
  shows "files (snd (process_all parse render fs w)) p = files w p"
  using assms
proof (induction fs arbitrary: w)
  case Nil
  then show ?case by simp
next
  case (Cons f fs)
  obtain i out where f: "f = (i, out)" by (cases f)
  from Cons.prems f have "p \<noteq> out" and rest: "p \<notin> snd ` set fs" by auto
  then show ?case
    using Cons.IH [OF rest] process_csv_file_files_other [of p out]
    by (simp add: f split: prod.splits) (metis snd_conv)
qed

lemma process_all_isolated:
  assumes "set (map fst fs) \<inter> set (map snd fs) = {}" and "distinct (map snd fs)"
  shows "fst (process_all parse render fs w) =
           map (\<lambda>(i, out). fst (process_csv_file parse render i (Some out) ''state'' w)) fs
         \<and> (\<forall>(i, out) \<in> set fs.
              files (snd (process_all parse render fs w)) out =
              files (snd (process_csv_file parse render i (Some out) ''state'' w)) out)"
  using assms
proof (induction fs arbitrary: w)
  case Nil
  then show ?case by simp
next
  case (Cons f fs)
  obtain i out where f: "f = (i, out)" by (cases f)
  define w1 where "w1 = snd (process_csv_file parse render i (Some out) ''state'' w)"
  define r1 where "r1 = fst (process_csv_file parse render i (Some out) ''state'' w)"
  have step: "process_all parse render (f # fs) w =
      (r1 # fst (process_all parse render fs w1), snd (process_all parse render fs w1))"
    by (simp add: f w1_def r1_def split: prod.splits)
  from Cons.prems f have disj: "set (map fst fs) \<inter> set (map snd fs) = {}"
    and dist: "distinct (map snd fs)"
    and out_fresh: "out \<notin> snd ` set fs"
    and out_no_input: "out \<notin> fst ` set fs"
    by auto
  have keep: "files w1 p = files w p" if "p \<noteq> out" for p
    unfolding w1_def using that by (rule process_csv_file_files_other)
  have lock: "locked w1 = locked w"
    unfolding w1_def by (rule process_csv_file_locked)
  note IH = Cons.IH [OF disj dist, of w1]
  have same: "fst (process_csv_file parse render i' (Some out') ''state'' w1) =
              fst (process_csv_file parse render i' (Some out') ''state'' w)
            \<and> files (snd (process_csv_file parse render i' (Some out') ''state'' w1)) out' =
              files (snd (process_csv_file parse render i' (Some out') ''state'' w)) out'"
    if "(i', out') \<in> set fs" for i' out'
  proof -
    from that out_no_input have "i' \<noteq> out" by force
    then have a: "files w1 i' = files w i'" by (rule keep)
    from that out_fresh have "out' \<noteq> out" by force
    then have b: "files w1 out' = files w out'" by (rule keep)
    show ?thesis
      using process_csv_file_result_cong [OF a lock]
        process_csv_file_files_cong [OF a b lock]
      by simp
  qed
  have results: "fst (process_all parse render fs w1) =
      map (\<lambda>(i, out). fst (process_csv_file parse render i (Some out) ''state'' w)) fs"
    using IH same by (auto simp: case_prod_beta)
  have head: "files (snd (process_all parse render fs w1)) out =
              files (snd (process_csv_file parse render i (Some out) ''state'' w)) out"
    using process_all_files_other [OF out_fresh] by (simp add: w1_def)
  have tail: "files (snd (process_all parse render fs w1)) out' =
              files (snd (process_csv_file parse render i' (Some out') ''state'' w)) out'"
    if "(i', out') \<in> set fs" for i' out'
    using IH same that by fastforce
  show ?case
    unfolding step fst_conv snd_conv
    using results head tail by (auto simp: f r1_def)
qed

lemma files_to_process_paths:
  "set (map fst files_to_process) \<inter> set (map snd files_to_process) = {}"
  "distinct (map snd files_to_process)"
  by (simp_all add: files_to_process_def)

section \<open>Facts about plain comma-separated text\<close>

lemma plain_read_csv_examples:
  "plain_read_csv (''state\<newline>TN'') = Some [(''state'', [Some ''TN''])]"
  "plain_read_csv (''state\<newline>TN\<newline>'') = Some [(''state'', [Some ''TN''])]"
  "plain_read_csv (''name\<newline>TN\<newline>'') = Some [(''name'', [Some ''TN''])]"
  by code_simp+

lemma plain_to_csv_examples:
  "plain_to_csv [(''state'', [Some ''TN''])] = ''state\<newline>TN\<newline>''"
  "plain_to_csv [(''state'', [Some ''tamil nadu''])] =
     ''state\<newline>tamil nadu\<newline>''"
  by code_simp+

lemma backup_path_example:
  "replace ''.csv'' ''_BACKUP.csv'' ''data/x.csv'' = ''data/x_BACKUP.csv''"
  by simp

lemma clean_state_column_example:
  "clean_state_column [(''state'', [Some ''TN''])] ''state'' =
     Inr ([(''state'', [Some ''tamil nadu''])],
          \<lparr>total_rows = 1, invalid_count = 0, invalid_samples = []\<rparr>)"
  "clean_state_column [(''name'', [Some ''TN''])] ''state'' = Inl (KeyError ''state'')"
  by (simp_all add: clean_state_column_def clean_examples INVALID_STATE_def)

lemma process_example:
  "process_csv_file plain_read_csv plain_to_csv ''in.csv'' (Some ''out.csv'') ''state''
     \<lparr>files = [''in.csv'' \<mapsto> ''state\<newline>TN\<newline>''], writes = [], locked = {}\<rparr>
   = (Inr [(''state'', [Some ''tamil nadu''])],
      \<lparr>files = [''in.csv'' \<mapsto> ''state\<newline>TN\<newline>'',
                 ''out.csv'' \<mapsto> ''state\<newline>tamil nadu\<newline>''],
        writes = [(''out.csv'', ''state\<newline>tamil nadu\<newline>'')], locked = {}\<rparr>)"
  by (rule process_csv_file_output [where ?df0.0 = "[(''state'', [Some ''TN''])]"])
     (simp_all add: read_csv_def to_csv_def plain_read_csv_examples plain_to_csv_examples
        clean_state_column_example)

lemma overwrite_example:
  "process_csv_file plain_read_csv plain_to_csv ''data/x.csv'' None ''state''
     \<lparr>files = [''data/x.csv'' \<mapsto> ''state\<newline>TN''], writes = [], locked = {}\<rparr>
   = (Inr [(''state'', [Some ''tamil nadu''])],
      \<lparr>files = [''data/x.csv'' \<mapsto> ''state\<newline>TN'',
                 ''data/x_BACKUP.csv'' \<mapsto> ''state\<newline>TN\<newline>'',
                 ''data/x.csv'' \<mapsto> ''state\<newline>tamil nadu\<newline>''],
        writes = [(''data/x_BACKUP.csv'', ''state\<newline>TN\<newline>''),
                  (''data/x.csv'', ''state\<newline>tamil nadu\<newline>'')], locked = {}\<rparr>)"
  by (rule process_csv_file_overwrite
        [where ?df0.0 = "[(''state'', [Some ''TN''])]"
           and ?w1.0 = "\<lparr>files = [''data/x.csv'' \<mapsto> ''state\<newline>TN'',
                 ''data/x_BACKUP.csv'' \<mapsto> ''state\<newline>TN\<newline>''],
        writes = [(''data/x_BACKUP.csv'', ''state\<newline>TN\<newline>'')], locked = {}\<rparr>"])
     (simp_all add: read_csv_def to_csv_def plain_read_csv_examples plain_to_csv_examples
        clean_state_column_example)

lemma main_no_arguments:
  "main parse render [prog] w =
     (None, fst (process_all parse render files_to_process w),
            snd (process_all parse render files_to_process w))"
  by (simp add: main_def split: prod.splits)

lemma batch_example:
  "process_csv_file plain_read_csv plain_to_csv
     ''data/enrollment.csv'' (Some ''data/enrollment_cleaned_states.csv'') ''state''
     \<lparr>files = [''data/demographic.csv'' \<mapsto> ''state\<newline>TN\<newline>'',
               ''data/biometric.csv'' \<mapsto> ''name\<newline>TN\<newline>''],
      writes = [], locked = {}\<rparr>
   = (Inl (FileNotFoundError ''data/enrollment.csv''),
      \<lparr>files = [''data/demographic.csv'' \<mapsto> ''state\<newline>TN\<newline>'',
               ''data/biometric.csv'' \<mapsto> ''name\<newline>TN\<newline>''],
      writes = [], locked = {}\<rparr>)"
  "process_csv_file plain_read_csv plain_to_csv
     ''data/demographic.csv'' (Some ''data/demographic_cleaned_states.csv'') ''state''
     \<lparr>files = [''data/demographic.csv'' \<mapsto> ''state\<newline>TN\<newline>'',
               ''data/biometric.csv'' \<mapsto> ''name\<newline>TN\<newline>''],
      writes = [], locked = {}\<rparr>
   = (Inr [(''state'', [Some ''tamil nadu''])],
      \<lparr>files = [''data/demographic.csv'' \<mapsto> ''state\<newline>TN\<newline>'',
                 ''data/biometric.csv'' \<mapsto> ''name\<newline>TN\<newline>'',
                 ''data/demographic_cleaned_states.csv'' \<mapsto>
                   ''state\<newline>tamil nadu\<newline>''],
        writes = [(''data/demographic_cleaned_states.csv'',
                   ''state\<newline>tamil nadu\<newline>'')], locked = {}\<rparr>)"
  "process_csv_file plain_read_csv plain_to_csv
     ''data/biometric.csv'' (Some ''data/biometric_cleaned_states.csv'') ''state''
     \<lparr>files = [''data/demographic.csv'' \<mapsto> ''state\<newline>TN\<newline>'',
               ''data/biometric.csv'' \<mapsto> ''name\<newline>TN\<newline>''],
      writes = [], locked = {}\<rparr>
   = (Inl (KeyError ''state''),
      \<lparr>files = [''data/demographic.csv'' \<mapsto> ''state\<newline>TN\<newline>'',
               ''data/biometric.csv'' \<mapsto> ''name\<newline>TN\<newline>''],
      writes = [], locked = {}\<rparr>)"
proof -
  show
  "process_csv_file plain_read_csv plain_to_csv
     ''data/enrollment.csv'' (Some ''data/enrollment_cleaned_states.csv'') ''state''
     \<lparr>files = [''data/demographic.csv'' \<mapsto> ''state\<newline>TN\<newline>'',
               ''data/biometric.csv'' \<mapsto> ''name\<newline>TN\<newline>''],
      writes = [], locked = {}\<rparr>
   = (Inl (FileNotFoundError ''data/enrollment.csv''),
      \<lparr>files = [''data/demographic.csv'' \<mapsto> ''state\<newline>TN\<newline>'',
               ''data/biometric.csv'' \<mapsto> ''name\<newline>TN\<newline>''],
      writes = [], locked = {}\<rparr>)"
    by (rule process_csv_file_read_error) (simp add: read_csv_def)
  show
  "process_csv_file plain_read_csv plain_to_csv
     ''data/demographic.csv'' (Some ''data/demographic_cleaned_states.csv'') ''state''
     \<lparr>files = [''data/demographic.csv'' \<mapsto> ''state\<newline>TN\<newline>'',
               ''data/biometric.csv'' \<mapsto> ''name\<newline>TN\<newline>''],
      writes = [], locked = {}\<rparr>
   = (Inr [(''state'', [Some ''tamil nadu''])],
      \<lparr>files = [''data/demographic.csv'' \<mapsto> ''state\<newline>TN\<newline>'',
                 ''data/biometric.csv'' \<mapsto> ''name\<newline>TN\<newline>'',
                 ''data/demographic_cleaned_states.csv'' \<mapsto>
                   ''state\<newline>tamil nadu\<newline>''],
        writes = [(''data/demographic_cleaned_states.csv'',
                   ''state\<newline>tamil nadu\<newline>'')], locked = {}\<rparr>)"
    by (rule process_csv_file_output [where ?df0.0 = "[(''state'', [Some ''TN''])]"])
       (simp_all add: read_csv_def to_csv_def plain_read_csv_examples plain_to_csv_examples
          clean_state_column_example)
  show
  "process_csv_file plain_read_csv plain_to_csv
     ''data/biometric.csv'' (Some ''data/biometric_cleaned_states.csv'') ''state''
     \<lparr>files = [''data/demographic.csv'' \<mapsto> ''state\<newline>TN\<newline>'',
               ''data/biometric.csv'' \<mapsto> ''name\<newline>TN\<newline>''],
      writes = [], locked = {}\<rparr>
   = (Inl (KeyError ''state''),
      \<lparr>files = [''data/demographic.csv'' \<mapsto> ''state\<newline>TN\<newline>'',
               ''data/biometric.csv'' \<mapsto> ''name\<newline>TN\<newline>''],
      writes = [], locked = {}\<rparr>)"
    by (rule process_csv_file_column_error [where ?df0.0 = "[(''name'', [Some ''TN''])]"])
       (simp_all add: read_csv_def plain_read_csv_examples clean_state_column_example)
qed

section \<open>The claims\<close>

subsection \<open>Aliases written with an ampersand\<close>

text \<open>
  C1. The claim: every alias of the table cleans to its official name, in any case and
  spacing; in particular \<^verbatim>\<open>"  J&K "\<close> and \<^verbatim>\<open>"j and k"\<close> give the same key and
  \<^verbatim>\<open>"J&K"\<close> cleans to \<^verbatim>\<open>"jammu and kashmir"\<close>.

  The code at these inputs: the ampersand is replaced by \<^verbatim>\<open>and\<close> before the lookup, so
  \<^verbatim>\<open>"J&K"\<close> gives the key \<^verbatim>\<open>"jandk"\<close>, which the table does not have, and cleans to
  \<^verbatim>\<open>INVALID_STATE\<close>, although the table lists \<^verbatim>\<open>"j&k"\<close> for \<^verbatim>\<open>"jammu and kashmir"\<close>.
  The same happens to the table's entries \<^verbatim>\<open>"j & k"\<close>, \<^verbatim>\<open>"a&n islands"\<close> and
  \<^verbatim>\<open>"a & n islands"\<close>: no input reaches them.
\<close>

theorem ampersand_alias_unresolved:
  "clean_state_name (Some ''J&K'') = INVALID_STATE
   \<and> map_of STATE_NAME_MAP ''j&k'' = Some ''jammu and kashmir''
   \<and> state_clean ''  J&K '' = ''jandk''
   \<and> state_clean ''j and k'' = ''j and k''
   \<and> clean_state_name (Some ''j & k'') = INVALID_STATE
   \<and> map_of STATE_NAME_MAP ''j & k'' = Some ''jammu and kashmir''
   \<and> clean_state_name (Some ''a&n islands'') = INVALID_STATE
   \<and> map_of STATE_NAME_MAP ''a&n islands'' = Some ''andaman and nicobar islands''
   \<and> clean_state_name (Some ''a & n islands'') = INVALID_STATE
   \<and> map_of STATE_NAME_MAP ''a & n islands'' = Some ''andaman and nicobar islands''"
  by (simp add: clean_state_name_def state_clean_examples lookup_examples alias_entries)

subsection \<open>The example dataset\<close>

text \<open>
  C2, as stated: cleaning the rows U.P., TN, Mars of the column \<^verbatim>\<open>state\<close> gives the rows
  \<^verbatim>\<open>uttar pradesh\<close>, \<^verbatim>\<open>tamil nadu\<close>, \<^verbatim>\<open>UNRESOLVED\<close>, one unresolved row, and the sample
  list \<^verbatim>\<open>["Mars"]\<close>. Neither the third row nor the sample list is what the code
  produces: the third row holds \<^verbatim>\<open>INVALID_STATE\<close>, and the examples are taken from the
  column after cleaning.
\<close>

theorem end_to_end_example_counterexample:
  "fst (projr (clean_state_column
                 [(''state'', [Some ''U.P.'', Some ''TN'', Some ''Mars''])] ''state''))
     \<noteq> [(''state'', [Some ''uttar pradesh'', Some ''tamil nadu'', Some ''UNRESOLVED''])]
   \<and> invalid_samples
         (snd (projr (clean_state_column
                        [(''state'', [Some ''U.P.'', Some ''TN'', Some ''Mars''])] ''state'')))
     \<noteq> [''Mars'']"
  by (simp add: clean_state_column_def clean_examples INVALID_STATE_def)

text \<open>
  C2, amended: cleaning the rows U.P., TN, Mars of the column \<^verbatim>\<open>state\<close> gives the rows
  \<^verbatim>\<open>uttar pradesh\<close>, \<^verbatim>\<open>tamil nadu\<close>, \<^verbatim>\<open>INVALID_STATE\<close>, and the count of invalid rows
  is 1 of 3.
\<close>

theorem end_to_end_example:
  "\<exists>r. clean_state_column [(''state'', [Some ''U.P.'', Some ''TN'', Some ''Mars''])] ''state''
        = Inr ([(''state'',
                 [Some ''uttar pradesh'', Some ''tamil nadu'', Some ''INVALID_STATE''])], r)
      \<and> total_rows r = 3 \<and> invalid_count r = 1"
  by (simp add: clean_state_column_def clean_examples INVALID_STATE_def)

subsection \<open>Official names map to themselves\<close>

text \<open>
  C4. Every name that occurs as a value of the table is also a key of the table, mapped
  to itself, and cleaning it gives it back.
\<close>

theorem official_names_map_to_themselves:
  "\<forall>c \<in> snd ` set STATE_NAME_MAP.
     map_of STATE_NAME_MAP c = Some c \<and> clean_state_name (Some c) = c"
proof
  fix c assume "c \<in> snd ` set STATE_NAME_MAP"
  then have c: "c \<in> set official_names" by (simp add: ran_official)
  then have "map_of STATE_NAME_MAP c = Some c"
    using official_self by (simp add: list_all_iff)
  with c show "map_of STATE_NAME_MAP c = Some c \<and> clean_state_name (Some c) = c"
    by (simp add: clean_official)
qed

theorem official_names_map_to_themselves_witness:
  "''delhi'' \<in> snd ` set STATE_NAME_MAP
   \<and> map_of STATE_NAME_MAP ''delhi'' = Some ''delhi''
   \<and> clean_state_name (Some ''delhi'') = ''delhi''"
proof -
  have h: "''delhi'' \<in> snd ` set STATE_NAME_MAP"
    using INVALID_not_key by (simp add: ran_official)
  show ?thesis
    using h official_names_map_to_themselves [rule_format, OF h] by simp
qed

subsection \<open>Cleaning twice\<close>

text \<open>
  C5. Cleaning a value that is already cleaned leaves it as it is, the value
  \<^verbatim>\<open>INVALID_STATE\<close> included; and cleaning the column of a cleaned table again gives
  the same table (and prints the same figures).
\<close>

theorem cleaning_idempotent:
  "clean_state_name (Some (clean_state_name v)) = clean_state_name v
   \<and> (clean_state_column df col = Inr (df', r) \<longrightarrow> clean_state_column df' col = Inr (df', r))"
  by (simp add: clean_state_name_twice clean_state_column_twice)

theorem cleaning_idempotent_witness:
  "clean_state_column [(''state'', [Some ''TN'', None])] ''state''
     = Inr ([(''state'', [Some ''tamil nadu'', Some ''INVALID_STATE''])],
            \<lparr>total_rows = 2, invalid_count = 1, invalid_samples = [''INVALID_STATE'']\<rparr>)
   \<and> clean_state_column [(''state'', [Some ''tamil nadu'', Some ''INVALID_STATE''])] ''state''
     = Inr ([(''state'', [Some ''tamil nadu'', Some ''INVALID_STATE''])],
            \<lparr>total_rows = 2, invalid_count = 1, invalid_samples = [''INVALID_STATE'']\<rparr>)"
proof -
  have h: "clean_state_column [(''state'', [Some ''TN'', None])] ''state''
     = Inr ([(''state'', [Some ''tamil nadu'', Some ''INVALID_STATE''])],
            \<lparr>total_rows = 2, invalid_count = 1, invalid_samples = [''INVALID_STATE'']\<rparr>)"
    by (simp add: clean_state_column_def clean_examples INVALID_STATE_def)
  show ?thesis
    using h cleaning_idempotent [THEN conjunct2, rule_format, OF h] by simp
qed

subsection \<open>Values the table does not know\<close>

text \<open>
  C6. A value whose key \<^const>\<open>state_clean\<close> is not in the table cleans to the value
  \<^verbatim>\<open>INVALID_STATE\<close>, as \<^verbatim>\<open>"Atlantis"\<close> does; and such values do not stop the cleaning of
  a column: whatever the values of a column that is present, \<^const>\<open>clean_state_column\<close>
  returns the table with every value of the column cleaned.
\<close>

theorem unrecognized_value_invalid:
  "(map_of STATE_NAME_MAP (state_clean v) = None \<longrightarrow> clean_state_name (Some v) = INVALID_STATE)
   \<and> clean_state_name (Some ''Atlantis'') = INVALID_STATE
   \<and> (map_of df col = Some vals \<longrightarrow>
        (\<exists>r. clean_state_column df col
               = Inr (AList.update col (map Some (map clean_state_name vals)) df, r)))"
proof (intro conjI impI)
  assume "map_of STATE_NAME_MAP (state_clean v) = None"
  then show "clean_state_name (Some v) = INVALID_STATE"
    by (simp add: clean_state_name_def)
next
  show "clean_state_name (Some ''Atlantis'') = INVALID_STATE"
    by (simp add: clean_examples INVALID_STATE_def)
next
  assume "map_of df col = Some vals"
  then show "\<exists>r. clean_state_column df col
               = Inr (AList.update col (map Some (map clean_state_name vals)) df, r)"
    by (simp add: clean_state_column_Inr)
qed

theorem unrecognized_value_invalid_witness:
  "map_of STATE_NAME_MAP (state_clean ''Atlantis'') = None
   \<and> clean_state_name (Some ''Atlantis'') = INVALID_STATE
   \<and> map_of [(''state'', [Some ''Atlantis'', Some ''TN''])] ''state''
       = Some [Some ''Atlantis'', Some ''TN'']
   \<and> (\<exists>r. clean_state_column [(''state'', [Some ''Atlantis'', Some ''TN''])] ''state''
            = Inr ([(''state'', [Some ''INVALID_STATE'', Some ''tamil nadu''])], r))"
proof -
  have h1: "map_of STATE_NAME_MAP (state_clean ''Atlantis'') = None"
    by (simp add: state_clean_examples lookup_examples)
  have h2: "map_of [(''state'', [Some ''Atlantis'', Some ''TN''])] ''state''
       = Some [Some ''Atlantis'', Some ''TN'']"
    by simp
  note inst = unrecognized_value_invalid
    [of "''Atlantis''" "[(''state'', [Some ''Atlantis'', Some ''TN''])]" "''state''"
        "[Some ''Atlantis'', Some ''TN'']"]
  from inst h1 have a: "clean_state_name (Some ''Atlantis'') = INVALID_STATE" by blast
  from inst h2 have b: "\<exists>r. clean_state_column [(''state'', [Some ''Atlantis'', Some ''TN''])] ''state''
     = Inr (AList.update ''state''
              (map Some (map clean_state_name [Some ''Atlantis'', Some ''TN'']))
              [(''state'', [Some ''Atlantis'', Some ''TN''])], r)" by blast
  from b have c: "\<exists>r. clean_state_column [(''state'', [Some ''Atlantis'', Some ''TN''])] ''state''
            = Inr ([(''state'', [Some ''INVALID_STATE'', Some ''tamil nadu''])], r)"
    by (simp add: clean_examples)
  from h1 a h2 c show ?thesis by blast
qed

subsection \<open>Missing values, and values that are not scalars\<close>



subsection \<open>What a cleaned column can hold\<close>

text \<open>
  C10. The result of \<^const>\<open>clean_state_name\<close> is a value of the table or
  \<^verbatim>\<open>INVALID_STATE\<close>; the table has 36 distinct values and \<^verbatim>\<open>INVALID_STATE\<close> is none of
  them; so a cleaned column holds nothing but the 36 names and \<^verbatim>\<open>INVALID_STATE\<close>.
\<close>

theorem closed_output_domain:
  "clean_state_name v \<in> snd ` set STATE_NAME_MAP \<union> {INVALID_STATE}
   \<and> card (snd ` set STATE_NAME_MAP) = 36
   \<and> INVALID_STATE \<notin> snd ` set STATE_NAME_MAP
   \<and> set (map clean_state_name vals) \<subseteq> snd ` set STATE_NAME_MAP \<union> {INVALID_STATE}"
proof (intro conjI)
  show one: "clean_state_name v \<in> snd ` set STATE_NAME_MAP \<union> {INVALID_STATE}" for v
    using clean_state_name_cases [of v] by (auto simp: ran_official)
  show "card (snd ` set STATE_NAME_MAP) = 36"
    using official_distinct by (simp add: ran_official distinct_card)
  show "INVALID_STATE \<notin> snd ` set STATE_NAME_MAP"
    using INVALID_not_key by (simp add: ran_official)
  show "set (map clean_state_name vals) \<subseteq> snd ` set STATE_NAME_MAP \<union> {INVALID_STATE}"
    using one by auto
qed

subsection \<open>Rows and their order\<close>

text \<open>
  C8. Cleaning a column keeps the columns of the table, their order and the number of
  values of each; the cleaned column holds, row by row, the cleaned value of the row,
  and every other column is as it was. The table that \<^const>\<open>process_csv_file\<close>
  returns and writes is this cleaned table of the table it read.
\<close>

theorem rows_preserved:
  "(clean_state_column df col = Inr (df', r) \<longrightarrow>
       map fst df' = map fst df
     \<and> map (length \<circ> snd) df' = map (length \<circ> snd) df
     \<and> (\<exists>vals. map_of df col = Some vals
            \<and> map_of df' col = Some (map (\<lambda>v. Some (clean_state_name v)) vals)
            \<and> total_rows r = length vals)
     \<and> (\<forall>c. c \<noteq> col \<longrightarrow> map_of df' c = map_of df c))
   \<and> (process_csv_file parse render inp out col w = (Inr df1, w1) \<longrightarrow>
       (\<exists>df0 r0. read_csv parse w inp = Inr df0 \<and> clean_state_column df0 col = Inr (df1, r0))
     \<and> files w1 (case out of None \<Rightarrow> inp | Some p \<Rightarrow> p) = Some (render df1))"
proof (intro conjI impI)
  assume cleaned: "clean_state_column df col = Inr (df', r)"
  then obtain vals where vals: "map_of df col = Some vals"
    by (cases "map_of df col") (simp_all add: clean_state_column_KeyError)
  from cleaned have df': "df' = AList.update col (map Some (map clean_state_name vals)) df"
    and r: "total_rows r = length vals"
    unfolding clean_state_column_Inr [OF vals] by auto
  show "map fst df' = map fst df"
    unfolding df' using vals by (rule update_column_names)
  show "map (length \<circ> snd) df' = map (length \<circ> snd) df"
    unfolding df' using vals by (rule update_column_lengths) simp
  show "\<exists>vals. map_of df col = Some vals
          \<and> map_of df' col = Some (map (\<lambda>v. Some (clean_state_name v)) vals)
          \<and> total_rows r = length vals"
    using vals r by (simp add: df' update_conv')
  show "\<forall>c. c \<noteq> col \<longrightarrow> map_of df' c = map_of df c"
    by (simp add: df' update_conv')
next
  assume run: "process_csv_file parse render inp out col w = (Inr df1, w1)"
  show "\<exists>df0 r0. read_csv parse w inp = Inr df0 \<and> clean_state_column df0 col = Inr (df1, r0)"
  proof (cases out)
    case None
    with run have "process_csv_file parse render inp None col w = (Inr df1, w1)" by simp
    then show ?thesis by (rule process_csv_file_Inr_overwrite) blast
  next
    case (Some p)
    with run have "process_csv_file parse render inp (Some p) col w = (Inr df1, w1)" by simp
    then show ?thesis by (rule process_csv_file_Inr_output) blast
  qed
  show "files w1 (case out of None \<Rightarrow> inp | Some p \<Rightarrow> p) = Some (render df1)"
  proof (cases out)
    case None
    with run have "process_csv_file parse render inp None col w = (Inr df1, w1)" by simp
    then obtain w0 where "to_csv render df1 inp w0 = Inr w1"
      by (rule process_csv_file_Inr_overwrite)
    then have "files w1 = (files w0)(inp \<mapsto> render df1)" by (rule to_csv_Inr)
    with None show ?thesis by simp
  next
    case (Some p)
    with run have "process_csv_file parse render inp (Some p) col w = (Inr df1, w1)" by simp
    then have "to_csv render df1 p w = Inr w1"
      by (rule process_csv_file_Inr_output)
    then have "files w1 = (files w)(p \<mapsto> render df1)" by (rule to_csv_Inr)
    with Some show ?thesis by simp
  qed
qed

theorem rows_preserved_witness:
  "clean_state_column
     [(''state'', [Some ''U.P.'', Some ''TN'', Some ''Mars'']),
      (''count'', [Some ''1'', Some ''2'', Some ''3''])] ''state''
   = Inr ([(''state'', [Some ''uttar pradesh'', Some ''tamil nadu'', Some ''INVALID_STATE'']),
           (''count'', [Some ''1'', Some ''2'', Some ''3''])],
          \<lparr>total_rows = 3, invalid_count = 1, invalid_samples = [''INVALID_STATE'']\<rparr>)
   \<and> map (length \<circ> snd)
         [(''state'', [Some ''uttar pradesh'', Some ''tamil nadu'', Some ''INVALID_STATE'']),
           (''count'', [Some ''1'', Some ''2'', Some ''3''])]
       = map (length \<circ> snd)
         [(''state'', [Some ''U.P.'', Some ''TN'', Some ''Mars'']),
      (''count'', [Some ''1'', Some ''2'', Some ''3''])]
   \<and> process_csv_file plain_read_csv plain_to_csv ''in.csv'' (Some ''out.csv'') ''state''
     \<lparr>files = [''in.csv'' \<mapsto> ''state\<newline>TN\<newline>''], writes = [], locked = {}\<rparr>
   = (Inr [(''state'', [Some ''tamil nadu''])],
      \<lparr>files = [''in.csv'' \<mapsto> ''state\<newline>TN\<newline>'',
                 ''out.csv'' \<mapsto> ''state\<newline>tamil nadu\<newline>''],
        writes = [(''out.csv'', ''state\<newline>tamil nadu\<newline>'')], locked = {}\<rparr>)
   \<and> files \<lparr>files = [''in.csv'' \<mapsto> ''state\<newline>TN\<newline>'',
                 ''out.csv'' \<mapsto> ''state\<newline>tamil nadu\<newline>''],
        writes = [(''out.csv'', ''state\<newline>tamil nadu\<newline>'')], locked = {}\<rparr> ''out.csv''
       = Some (plain_to_csv [(''state'', [Some ''tamil nadu''])])"
proof -
  have h1: "clean_state_column
     [(''state'', [Some ''U.P.'', Some ''TN'', Some ''Mars'']),
      (''count'', [Some ''1'', Some ''2'', Some ''3''])] ''state''
   = Inr ([(''state'', [Some ''uttar pradesh'', Some ''tamil nadu'', Some ''INVALID_STATE'']),
           (''count'', [Some ''1'', Some ''2'', Some ''3''])],
          \<lparr>total_rows = 3, invalid_count = 1, invalid_samples = [''INVALID_STATE'']\<rparr>)"
    by (simp add: clean_state_column_def clean_examples INVALID_STATE_def)
  note h2 = process_example
  from rows_preserved [THEN conjunct1, rule_format, OF h1]
  have a: "map (length \<circ> snd)
         [(''state'', [Some ''uttar pradesh'', Some ''tamil nadu'', Some ''INVALID_STATE'']),
           (''count'', [Some ''1'', Some ''2'', Some ''3''])]
       = map (length \<circ> snd)
         [(''state'', [Some ''U.P.'', Some ''TN'', Some ''Mars'']),
      (''count'', [Some ''1'', Some ''2'', Some ''3''])]"
    by blast
  from rows_preserved [THEN conjunct2, rule_format, OF h2]
  have b: "files \<lparr>files = [''in.csv'' \<mapsto> ''state\<newline>TN\<newline>'',
                 ''out.csv'' \<mapsto> ''state\<newline>tamil nadu\<newline>''],
        writes = [(''out.csv'', ''state\<newline>tamil nadu\<newline>'')], locked = {}\<rparr> ''out.csv''
       = Some (plain_to_csv [(''state'', [Some ''tamil nadu''])])"
    by simp
  from h1 a h2 b show ?thesis by blast
qed

subsection \<open>The backup\<close>

text \<open>
  C3, as stated: without an output path, the backup file holds the bytes of the input
  file. The backup is not a copy of the file: the script reads the input again as a
  table and writes that table out. On comma-separated text whose last line lacks its
  line feed, a writer that ends every line gives a backup one byte longer than the
  input. Here \<^const>\<open>plain_read_csv\<close> and \<^const>\<open>plain_to_csv\<close> stand for the library
  on such a file.
\<close>

theorem backup_fidelity_counterexample:
  "files \<lparr>files = [''data/x.csv'' \<mapsto> ''state\<newline>TN''], writes = [], locked = {}\<rparr> ''data/x.csv''
     = Some ''state\<newline>TN''
   \<and> writes (snd (process_csv_file plain_read_csv plain_to_csv ''data/x.csv'' None ''state''
                     \<lparr>files = [''data/x.csv'' \<mapsto> ''state\<newline>TN''], writes = [], locked = {}\<rparr>))
     = [(''data/x_BACKUP.csv'', ''state\<newline>TN\<newline>''),
        (''data/x.csv'', ''state\<newline>tamil nadu\<newline>'')]
   \<and> files (snd (process_csv_file plain_read_csv plain_to_csv ''data/x.csv'' None ''state''
                    \<lparr>files = [''data/x.csv'' \<mapsto> ''state\<newline>TN''], writes = [], locked = {}\<rparr>))
         ''data/x_BACKUP.csv''
     \<noteq> Some ''state\<newline>TN''"
  by (simp add: overwrite_example)

text \<open>
  C3, amended: when the script runs without an output path, on an input path that the
  replacement of \<^verbatim>\<open>.csv\<close> by \<^verbatim>\<open>_BACKUP.csv\<close> changes, and succeeds, it has first
  written to the backup path what the library's writer makes of the table read from the
  input file, and then the cleaned table over the input, and has changed no other file;
  with an output path, a run that succeeds has written the cleaned table there and
  nothing else. This holds whatever the reader and the writer are.
\<close>

theorem backup_before_overwrite:
  "(replace ''.csv'' ''_BACKUP.csv'' input_file \<noteq> input_file
      \<and> process_csv_file parse render input_file None col w = (Inr df, w') \<longrightarrow>
      (\<exists>content df_original.
          files w input_file = Some content \<and> parse content = Some df_original
        \<and> writes w' = writes w @
              [(replace ''.csv'' ''_BACKUP.csv'' input_file, render df_original),
               (input_file, render df)]
        \<and> files w' = (files w)
              (replace ''.csv'' ''_BACKUP.csv'' input_file \<mapsto> render df_original,
               input_file \<mapsto> render df)
        \<and> files w' (replace ''.csv'' ''_BACKUP.csv'' input_file) = Some (render df_original)))
   \<and> (process_csv_file parse render input_file (Some output_file) col w = (Inr df, w') \<longrightarrow>
        writes w' = writes w @ [(output_file, render df)]
      \<and> files w' = (files w)(output_file \<mapsto> render df))"
proof (intro conjI impI)
  assume "replace ''.csv'' ''_BACKUP.csv'' input_file \<noteq> input_file
      \<and> process_csv_file parse render input_file None col w = (Inr df, w')"
  then have differ: "replace ''.csv'' ''_BACKUP.csv'' input_file \<noteq> input_file"
    and run: "process_csv_file parse render input_file None col w = (Inr df, w')"
    by simp_all
  from run obtain df0 r w1 where read: "read_csv parse w input_file = Inr df0"
    and first: "to_csv render df0 (replace ''.csv'' ''_BACKUP.csv'' input_file) w = Inr w1"
    and second: "to_csv render df input_file w1 = Inr w'"
    by (rule process_csv_file_Inr_overwrite)
  from read obtain content
    where content: "files w input_file = Some content" "parse content = Some df0"
    by (auto simp: read_csv_Inr)
  have log: "writes w' = writes w @
      [(replace ''.csv'' ''_BACKUP.csv'' input_file, render df0), (input_file, render df)]"
    by (simp add: to_csv_Inr(2) [OF second] to_csv_Inr(2) [OF first])
  have state: "files w' = (files w)
      (replace ''.csv'' ''_BACKUP.csv'' input_file \<mapsto> render df0, input_file \<mapsto> render df)"
    by (simp add: to_csv_Inr(1) [OF second] to_csv_Inr(1) [OF first])
  have kept: "files w' (replace ''.csv'' ''_BACKUP.csv'' input_file) = Some (render df0)"
    using differ by (simp add: state)
  from content log state kept
  show "\<exists>content df_original.
          files w input_file = Some content \<and> parse content = Some df_original
        \<and> writes w' = writes w @
              [(replace ''.csv'' ''_BACKUP.csv'' input_file, render df_original),
               (input_file, render df)]
        \<and> files w' = (files w)
              (replace ''.csv'' ''_BACKUP.csv'' input_file \<mapsto> render df_original,
               input_file \<mapsto> render df)
        \<and> files w' (replace ''.csv'' ''_BACKUP.csv'' input_file) = Some (render df_original)"
    by blast
next
  assume run: "process_csv_file parse render input_file (Some output_file) col w = (Inr df, w')"
  then have written: "to_csv render df output_file w = Inr w'"
    by (rule process_csv_file_Inr_output)
  show "writes w' = writes w @ [(output_file, render df)]"
    using written by (rule to_csv_Inr)
  show "files w' = (files w)(output_file \<mapsto> render df)"
    using written by (rule to_csv_Inr)
qed

theorem backup_before_overwrite_witness:
  "replace ''.csv'' ''_BACKUP.csv'' ''data/x.csv'' \<noteq> ''data/x.csv''
   \<and> process_csv_file plain_read_csv plain_to_csv ''data/x.csv'' None ''state''
     \<lparr>files = [''data/x.csv'' \<mapsto> ''state\<newline>TN''], writes = [], locked = {}\<rparr>
   = (Inr [(''state'', [Some ''tamil nadu''])],
      \<lparr>files = [''data/x.csv'' \<mapsto> ''state\<newline>TN'',
                 ''data/x_BACKUP.csv'' \<mapsto> ''state\<newline>TN\<newline>'',
                 ''data/x.csv'' \<mapsto> ''state\<newline>tamil nadu\<newline>''],
        writes = [(''data/x_BACKUP.csv'', ''state\<newline>TN\<newline>''),
                  (''data/x.csv'', ''state\<newline>tamil nadu\<newline>'')], locked = {}\<rparr>)
   \<and> process_csv_file plain_read_csv plain_to_csv ''in.csv'' (Some ''out.csv'') ''state''
     \<lparr>files = [''in.csv'' \<mapsto> ''state\<newline>TN\<newline>''], writes = [], locked = {}\<rparr>
   = (Inr [(''state'', [Some ''tamil nadu''])],
      \<lparr>files = [''in.csv'' \<mapsto> ''state\<newline>TN\<newline>'',
                 ''out.csv'' \<mapsto> ''state\<newline>tamil nadu\<newline>''],
        writes = [(''out.csv'', ''state\<newline>tamil nadu\<newline>'')], locked = {}\<rparr>)
   \<and> writes \<lparr>files = [''data/x.csv'' \<mapsto> ''state\<newline>TN'',
                 ''data/x_BACKUP.csv'' \<mapsto> ''state\<newline>TN\<newline>'',
                 ''data/x.csv'' \<mapsto> ''state\<newline>tamil nadu\<newline>''],
        writes = [(''data/x_BACKUP.csv'', ''state\<newline>TN\<newline>''),
                  (''data/x.csv'', ''state\<newline>tamil nadu\<newline>'')], locked = {}\<rparr>
     = [(''data/x_BACKUP.csv'', plain_to_csv [(''state'', [Some ''TN''])]),
        (''data/x.csv'', plain_to_csv [(''state'', [Some ''tamil nadu''])])]
   \<and> files \<lparr>files = [''data/x.csv'' \<mapsto> ''state\<newline>TN'',
                 ''data/x_BACKUP.csv'' \<mapsto> ''state\<newline>TN\<newline>'',
                 ''data/x.csv'' \<mapsto> ''state\<newline>tamil nadu\<newline>''],
        writes = [(''data/x_BACKUP.csv'', ''state\<newline>TN\<newline>''),
                  (''data/x.csv'', ''state\<newline>tamil nadu\<newline>'')], locked = {}\<rparr> ''data/x_BACKUP.csv''
     = Some (plain_to_csv [(''state'', [Some ''TN''])])
   \<and> writes \<lparr>files = [''in.csv'' \<mapsto> ''state\<newline>TN\<newline>'',
                 ''out.csv'' \<mapsto> ''state\<newline>tamil nadu\<newline>''],
        writes = [(''out.csv'', ''state\<newline>tamil nadu\<newline>'')], locked = {}\<rparr>
     = [(''out.csv'', plain_to_csv [(''state'', [Some ''tamil nadu''])])]"
proof -
  have h0: "replace ''.csv'' ''_BACKUP.csv'' ''data/x.csv'' \<noteq> ''data/x.csv''"
    by simp
  note h1 = overwrite_example
  note h2 = process_example
  from backup_before_overwrite [THEN conjunct1, rule_format, OF conjI [OF h0 h1]]
  have a: "writes \<lparr>files = [''data/x.csv'' \<mapsto> ''state\<newline>TN'',
                 ''data/x_BACKUP.csv'' \<mapsto> ''state\<newline>TN\<newline>'',
                 ''data/x.csv'' \<mapsto> ''state\<newline>tamil nadu\<newline>''],
        writes = [(''data/x_BACKUP.csv'', ''state\<newline>TN\<newline>''),
                  (''data/x.csv'', ''state\<newline>tamil nadu\<newline>'')], locked = {}\<rparr>
     = [(''data/x_BACKUP.csv'', plain_to_csv [(''state'', [Some ''TN''])]),
        (''data/x.csv'', plain_to_csv [(''state'', [Some ''tamil nadu''])])]"
    and k: "files \<lparr>files = [''data/x.csv'' \<mapsto> ''state\<newline>TN'',
                 ''data/x_BACKUP.csv'' \<mapsto> ''state\<newline>TN\<newline>'',
                 ''data/x.csv'' \<mapsto> ''state\<newline>tamil nadu\<newline>''],
        writes = [(''data/x_BACKUP.csv'', ''state\<newline>TN\<newline>''),
                  (''data/x.csv'', ''state\<newline>tamil nadu\<newline>'')], locked = {}\<rparr> ''data/x_BACKUP.csv''
     = Some (plain_to_csv [(''state'', [Some ''TN''])])"
    by (auto simp: plain_read_csv_examples backup_path_example)
  from backup_before_overwrite [THEN conjunct2, rule_format, OF h2]
  have b: "writes \<lparr>files = [''in.csv'' \<mapsto> ''state\<newline>TN\<newline>'',
                 ''out.csv'' \<mapsto> ''state\<newline>tamil nadu\<newline>''],
        writes = [(''out.csv'', ''state\<newline>tamil nadu\<newline>'')], locked = {}\<rparr>
     = [(''out.csv'', plain_to_csv [(''state'', [Some ''tamil nadu''])])]"
    by simp
  from h0 h1 h2 a k b show ?thesis by blast
qed

subsection \<open>The three datasets\<close>

text \<open>
  C9. Run without arguments, the script ends without an exception, whatever happens to
  each dataset. It reports one outcome for each of the three datasets, in order, and the
  outcome of a dataset, and what is in its output file afterwards, are what processing
  this dataset alone would give: a dataset that fails changes nothing for the others. A
  dataset whose input file does not exist has the outcome \<^verbatim>\<open>FileNotFoundError\<close>.
\<close>

theorem batch_continues_after_failure:
  "main parse render [prog] w = (err, outcomes, w') \<longrightarrow>
      err = None
    \<and> outcomes =
        map (\<lambda>(i, out). fst (process_csv_file parse render i (Some out) ''state'' w))
          files_to_process
    \<and> (\<forall>(i, out) \<in> set files_to_process.
          files w' out = files (snd (process_csv_file parse render i (Some out) ''state'' w)) out)
    \<and> (\<forall>k < 3. files w (fst (files_to_process ! k)) = None \<longrightarrow>
          outcomes ! k = Inl (FileNotFoundError (fst (files_to_process ! k))))"
proof
  assume run: "main parse render [prog] w = (err, outcomes, w')"
  then have err: "err = None"
    and outcomes: "outcomes = fst (process_all parse render files_to_process w)"
    and w': "w' = snd (process_all parse render files_to_process w)"
    by (simp_all add: main_no_arguments)
  note isolated = process_all_isolated [OF files_to_process_paths, of parse render w]
  from isolated have each: "outcomes =
        map (\<lambda>(i, out). fst (process_csv_file parse render i (Some out) ''state'' w))
          files_to_process"
    by (simp add: outcomes)
  from isolated have written: "\<forall>(i, out) \<in> set files_to_process.
          files w' out = files (snd (process_csv_file parse render i (Some out) ''state'' w)) out"
    by (simp add: w')
  have missing: "outcomes ! k = Inl (FileNotFoundError (fst (files_to_process ! k)))"
    if k: "k < 3" and none: "files w (fst (files_to_process ! k)) = None" for k
  proof -
    obtain i out where io: "files_to_process ! k = (i, out)"
      by (cases "files_to_process ! k")
    from k have len: "k < length files_to_process"
      by (simp add: files_to_process_def)
    from none io have "process_csv_file parse render i (Some out) ''state'' w
                        = (Inl (FileNotFoundError i), w)"
      by (simp add: process_csv_file_read_error read_csv_missing)
    with io len show ?thesis by (simp add: each)
  qed
  from err each written missing
  show "err = None
    \<and> outcomes =
        map (\<lambda>(i, out). fst (process_csv_file parse render i (Some out) ''state'' w))
          files_to_process
    \<and> (\<forall>(i, out) \<in> set files_to_process.
          files w' out = files (snd (process_csv_file parse render i (Some out) ''state'' w)) out)
    \<and> (\<forall>k < 3. files w (fst (files_to_process ! k)) = None \<longrightarrow>
          outcomes ! k = Inl (FileNotFoundError (fst (files_to_process ! k))))"
    by blast
qed

theorem batch_continues_after_failure_witness:
  "main plain_read_csv plain_to_csv [''clean_state_names.py'']
     \<lparr>files = [''data/demographic.csv'' \<mapsto> ''state\<newline>TN\<newline>'',
               ''data/biometric.csv'' \<mapsto> ''name\<newline>TN\<newline>''],
      writes = [], locked = {}\<rparr>
   = (None,
      [Inl (FileNotFoundError ''data/enrollment.csv''),
       Inr [(''state'', [Some ''tamil nadu''])],
       Inl (KeyError ''state'')],
      snd (snd (main plain_read_csv plain_to_csv [''clean_state_names.py'']
     \<lparr>files = [''data/demographic.csv'' \<mapsto> ''state\<newline>TN\<newline>'',
               ''data/biometric.csv'' \<mapsto> ''name\<newline>TN\<newline>''],
      writes = [], locked = {}\<rparr>)))
   \<and> files (snd (snd (main plain_read_csv plain_to_csv [''clean_state_names.py'']
     \<lparr>files = [''data/demographic.csv'' \<mapsto> ''state\<newline>TN\<newline>'',
               ''data/biometric.csv'' \<mapsto> ''name\<newline>TN\<newline>''],
      writes = [], locked = {}\<rparr>)))
       ''data/demographic_cleaned_states.csv''
     = Some ''state\<newline>tamil nadu\<newline>''"
proof -
  define W where "W = \<lparr>files = [''data/demographic.csv'' \<mapsto> ''state\<newline>TN\<newline>'',
               ''data/biometric.csv'' \<mapsto> ''name\<newline>TN\<newline>''],
      writes = [], locked = {}\<rparr>"
  define M where "M = main plain_read_csv plain_to_csv [''clean_state_names.py''] W"
  have h: "main plain_read_csv plain_to_csv [''clean_state_names.py''] W
             = (fst M, fst (snd M), snd (snd M))"
    by (simp add: M_def)
  note inst = batch_continues_after_failure [rule_format, OF h]
  from inst have err: "fst M = None" by blast
  from inst have "fst (snd M) =
        map (\<lambda>(i, out). fst (process_csv_file plain_read_csv plain_to_csv i (Some out) ''state'' W))
          files_to_process" by blast
  then have outcomes: "fst (snd M) =
      [Inl (FileNotFoundError ''data/enrollment.csv''),
       Inr [(''state'', [Some ''tamil nadu''])],
       Inl (KeyError ''state'')]"
    by (simp add: files_to_process_def W_def batch_example)
  from inst have "\<forall>(i, out) \<in> set files_to_process.
          files (snd (snd M)) out =
          files (snd (process_csv_file plain_read_csv plain_to_csv i (Some out) ''state'' W)) out"
    by blast
  then have written: "files (snd (snd M)) ''data/demographic_cleaned_states.csv''
     = Some ''state\<newline>tamil nadu\<newline>''"
    by (simp add: files_to_process_def W_def batch_example)
  have "M = (None, [Inl (FileNotFoundError ''data/enrollment.csv''),
       Inr [(''state'', [Some ''tamil nadu''])],
       Inl (KeyError ''state'')], snd (snd M))"
    using err outcomes by (simp add: prod_eq_iff)
  with written show ?thesis
    unfolding M_def W_def by simp
qed

end
